theory Spec2Isabelle
  imports Main "HOL-Library.Word"
begin

section \<open>Bytes, strings and hexadecimal text\<close>

text \<open>
  Go's \<^verbatim>\<open>byte\<close> is an unsigned 8-bit integer, a \<^verbatim>\<open>[]byte\<close> a list of them, and a
  Go string a sequence of bytes. Errors and panics of the source are values of one
  datatype; a function that can fail returns \<open>error + 'a\<close> with \<open>Inl\<close> the failure.
\<close>

type_synonym byte = "8 word"

datatype error =
    RandError
  | KeySizeError
  | InvalidSalt
  | DecodeSaltFailed
  | DecodeIVFailed
  | DecodeCiphertextFailed
  | DecryptFailed
  | ToECDSAFailed
  | MarshalFailed
  | MkdirFailed
  | WriteFailed
  | ReadFailed
  | UnmarshalFailed
  | GetTransactionFailed
  | GetReceiptFailed
  | AlreadyMonitored
  | NotFound
  | Panic

text \<open>\<^verbatim>\<open>[]byte(password)\<close>: the bytes of a string.\<close>

definition bytes_of_string :: "string \<Rightarrow> byte list" where
  "bytes_of_string s = map of_char s"

text \<open>\<^verbatim>\<open>fmt.Sprintf("%x", b)\<close> on a byte slice: two lower-case digits per byte.\<close>

definition hexdigit :: "nat \<Rightarrow> char" where
  "hexdigit n = ''0123456789abcdef'' ! n"

fun fmt_x :: "byte list \<Rightarrow> string" where
  "fmt_x [] = []"
| "fmt_x (b # bs) = hexdigit (unat b div 16) # hexdigit (unat b mod 16) # fmt_x bs"

text \<open>
  \<^verbatim>\<open>hex.DecodeString\<close>: digits \<^verbatim>\<open>0-9\<close>, \<^verbatim>\<open>a-f\<close> and \<^verbatim>\<open>A-F\<close> are accepted; any other
  character and an odd length are errors.
\<close>

definition fromHexChar :: "char \<Rightarrow> nat option" where
  "fromHexChar c =
     (let n = (of_char c :: nat) in
      if 48 \<le> n \<and> n \<le> 57 then Some (n - 48)
      else if 97 \<le> n \<and> n \<le> 102 then Some (n - 87)
      else if 65 \<le> n \<and> n \<le> 70 then Some (n - 55)
      else None)"

fun hex_DecodeString :: "string \<Rightarrow> byte list option" where
  "hex_DecodeString [] = Some []"
| "hex_DecodeString [c] = None"
| "hex_DecodeString (p # q # rest) =
     (case fromHexChar p of
        None \<Rightarrow> None
      | Some a \<Rightarrow>
          (case fromHexChar q of
             None \<Rightarrow> None
           | Some b \<Rightarrow> map_option ((#) (word_of_nat (a * 16 + b))) (hex_DecodeString rest)))"

text \<open>A slice expression \<^verbatim>\<open>xs[lo:hi]\<close> panics when the bounds do not fit.\<close>

definition go_slice :: "'a list \<Rightarrow> nat \<Rightarrow> nat \<Rightarrow> error + 'a list" where
  "go_slice xs lo hi =
     (if lo \<le> hi \<and> hi \<le> length xs then Inr (take (hi - lo) (drop lo xs)) else Inl Panic)"

text \<open>\<^verbatim>\<open>s[2:]\<close> on a string, as the decryption path uses it to drop the \<^verbatim>\<open>0x\<close> prefix.\<close>

definition drop_prefix2 :: "string \<Rightarrow> error + string" where
  "drop_prefix2 s = (if length s < 2 then Inl Panic else Inr (drop 2 s))"

text \<open>
  A field \<open>s\<close> of a record is hex text of the bytes \<open>bs\<close> when, without its first
  two characters, it decodes to them.
\<close>

definition hex_field :: "string \<Rightarrow> byte list \<Rightarrow> bool" where
  "hex_field s bs \<longleftrightarrow> 2 \<le> length s \<and> hex_DecodeString (drop 2 s) = Some bs"

text \<open>
  \<^verbatim>\<open>io.ReadFull(rand.Reader, buf)\<close>: the random source is a supply of bytes; the
  read takes exactly \<open>n\<close> of them and fails when fewer are delivered.
\<close>

definition io_ReadFull :: "byte list \<Rightarrow> nat \<Rightarrow> (byte list \<times> byte list) option" where
  "io_ReadFull src n = (if length src < n then None else Some (take n src, drop n src))"

section \<open>Cipher engine and keystore record (keystore/encrypt.go)\<close>

text \<open>
  The primitives come from Go's standard library and from go-ethereum; they are
  parameters of the model. \<open>gcm_Seal key nonce plaintext\<close> is the ciphertext with the
  tag appended, \<open>gcm_Open key nonce ciphertext\<close> is \<open>None\<close> when the tag does not
  verify. \<open>crypto_ToECDSA\<close> is \<open>None\<close> when the bytes are no valid private key, and
  \<open>address_Hex\<close> is \<^verbatim>\<open>crypto.PubkeyToAddress(k.PublicKey).Hex()\<close>.
\<close>

record 'k crypto_lib =
  sha256_Sum256 :: "byte list \<Rightarrow> byte list"
  crypto_Keccak256 :: "byte list \<Rightarrow> byte list"
  gcm_Seal :: "byte list \<Rightarrow> byte list \<Rightarrow> byte list \<Rightarrow> byte list"
  gcm_Open :: "byte list \<Rightarrow> byte list \<Rightarrow> byte list \<Rightarrow> byte list option"
  crypto_ToECDSA :: "byte list \<Rightarrow> 'k option"
  address_Hex :: "'k \<Rightarrow> string"

text \<open>The values of the \<^verbatim>\<open>map[string]interface{}\<close> holding the KDF parameters.\<close>

datatype kdf_value = IntVal int | StrVal string

record CipherParamsJSON =
  IV :: string

record CryptoJSON =
  Cipher :: string
  CipherText :: string
  CipherParams :: CipherParamsJSON
  KDF :: string
  KDFParams :: "string \<rightharpoonup> kdf_value"
  MAC :: string

record EncryptedKey =
  Address :: string
  Crypto :: CryptoJSON
  Version :: int
  ID :: string

text \<open>\<^verbatim>\<open>deriveKey\<close>: one SHA-256 over the password followed by the salt.\<close>

definition deriveKey :: "('k, 'z) crypto_lib_scheme \<Rightarrow> string \<Rightarrow> byte list \<Rightarrow> byte list" where
  "deriveKey P password salt = sha256_Sum256 P (bytes_of_string password @ salt)"

text \<open>\<^verbatim>\<open>aes.NewCipher\<close> accepts keys of 16, 24 or 32 bytes.\<close>

definition aes_NewCipher :: "byte list \<Rightarrow> error + byte list" where
  "aes_NewCipher key =
     (if length key = 16 \<or> length key = 24 \<or> length key = 32 then Inr key
      else Inl KeySizeError)"

text \<open>
  \<^verbatim>\<open>cipher.NewGCM\<close> cannot fail on an AES block. \<^verbatim>\<open>Seal\<close> and \<^verbatim>\<open>Open\<close> panic on a
  nonce that is not 12 bytes long; \<^verbatim>\<open>Open\<close> returns an error when the tag does not
  verify.
\<close>

definition aesGCM_Seal ::
  "('k, 'z) crypto_lib_scheme \<Rightarrow> byte list \<Rightarrow> byte list \<Rightarrow> byte list \<Rightarrow> error + byte list" where
  "aesGCM_Seal P block nonce plaintext =
     (if length nonce \<noteq> 12 then Inl Panic else Inr (gcm_Seal P block nonce plaintext))"

definition aesGCM_Open ::
  "('k, 'z) crypto_lib_scheme \<Rightarrow> byte list \<Rightarrow> byte list \<Rightarrow> byte list \<Rightarrow> error + byte list" where
  "aesGCM_Open P block nonce ciphertext =
     (if length nonce \<noteq> 12 then Inl Panic
      else case gcm_Open P block nonce ciphertext of
             None \<Rightarrow> Inl DecryptFailed
           | Some plaintext \<Rightarrow> Inr plaintext)"

text \<open>
  \<^verbatim>\<open>EncryptKey\<close>. The second argument is the supply of random bytes that the two
  \<^verbatim>\<open>io.ReadFull\<close> calls consume (32 bytes of salt, then 12 bytes of IV). The address
  is computed from \<^verbatim>\<open>crypto.ToECDSA(privateKey)\<close> with its error ignored, so bytes
  that are no valid key end in a nil dereference.
\<close>

definition EncryptKey ::
  "('k, 'z) crypto_lib_scheme \<Rightarrow> byte list \<Rightarrow> byte list \<Rightarrow> string \<Rightarrow> error + EncryptedKey" where
  "EncryptKey P entropy privateKey password =
     (case io_ReadFull entropy 32 of
        None \<Rightarrow> Inl RandError
      | Some (salt, entropy') \<Rightarrow>
          let derivedKey = deriveKey P password salt in
          (case io_ReadFull entropy' 12 of
             None \<Rightarrow> Inl RandError
           | Some (iv, _) \<Rightarrow>
               (case aes_NewCipher derivedKey of
                  Inl e \<Rightarrow> Inl e
                | Inr block \<Rightarrow>
                    (case aesGCM_Seal P block iv privateKey of
                       Inl e \<Rightarrow> Inl e
                     | Inr ciphertext \<Rightarrow>
                         (case go_slice derivedKey 16 32 of
                            Inl e \<Rightarrow> Inl e
                          | Inr macKey \<Rightarrow>
                              let mac = crypto_Keccak256 P (macKey @ ciphertext) in
                              (case crypto_ToECDSA P privateKey of
                                 None \<Rightarrow> Inl Panic
                               | Some k \<Rightarrow>
                                   Inr \<lparr> Address = address_Hex P k,
                                         Crypto = \<lparr> Cipher = ''aes-256-gcm'',
                                                    CipherText = ''0x'' @ fmt_x ciphertext,
                                                    CipherParams = \<lparr> IV = ''0x'' @ fmt_x iv \<rparr>,
                                                    KDF = ''pbkdf2'',
                                                    KDFParams =
                                                      [''c'' \<mapsto> IntVal 262144,
                                                       ''dklen'' \<mapsto> IntVal 32,
                                                       ''prf'' \<mapsto> StrVal ''hmac-sha256'',
                                                       ''salt'' \<mapsto> StrVal (''0x'' @ fmt_x salt)],
                                                    MAC = ''0x'' @ fmt_x mac \<rparr>,
                                         Version = 3,
                                         ID = fmt_x (crypto_Keccak256 P
                                                (bytes_of_string ''GoSignerVaultCLI'')) \<rparr>))))))"

text \<open>
  \<^verbatim>\<open>DecryptKey\<close>, in the order of the source: salt, derived key, IV, ciphertext,
  cipher, \<^verbatim>\<open>Open\<close>, conversion to a private key. The fields \<^verbatim>\<open>MAC\<close>, \<^verbatim>\<open>KDF\<close> and
  the other KDF parameters are not read.
\<close>

definition DecryptKey ::
  "('k, 'z) crypto_lib_scheme \<Rightarrow> EncryptedKey \<Rightarrow> string \<Rightarrow> error + 'k" where
  "DecryptKey P key password =
     (case KDFParams (Crypto key) ''salt'' of
        Some (StrVal saltHex) \<Rightarrow>
          (case drop_prefix2 saltHex of
             Inl e \<Rightarrow> Inl e
           | Inr saltDigits \<Rightarrow>
               (case hex_DecodeString saltDigits of
                  None \<Rightarrow> Inl DecodeSaltFailed
                | Some salt \<Rightarrow>
                    let derivedKey = deriveKey P password salt in
                    (case drop_prefix2 (IV (CipherParams (Crypto key))) of
                       Inl e \<Rightarrow> Inl e
                     | Inr ivDigits \<Rightarrow>
                         (case hex_DecodeString ivDigits of
                            None \<Rightarrow> Inl DecodeIVFailed
                          | Some iv \<Rightarrow>
                              (case drop_prefix2 (CipherText (Crypto key)) of
                                 Inl e \<Rightarrow> Inl e
                               | Inr ctDigits \<Rightarrow>
                                   (case hex_DecodeString ctDigits of
                                      None \<Rightarrow> Inl DecodeCiphertextFailed
                                    | Some ciphertext \<Rightarrow>
                                        (case aes_NewCipher derivedKey of
                                           Inl e \<Rightarrow> Inl e
                                         | Inr block \<Rightarrow>
                                             (case aesGCM_Open P block iv ciphertext of
                                                Inl e \<Rightarrow> Inl e
                                              | Inr plaintext \<Rightarrow>
                                                  (case crypto_ToECDSA P plaintext of
                                                     None \<Rightarrow> Inl ToECDSAFailed
                                                   | Some privateKey \<Rightarrow> Inr privateKey)))))))))
      | _ \<Rightarrow> Inl InvalidSalt)"

text \<open>Encrypting and then decrypting under the same password.\<close>

definition Decrypt_of_Encrypt ::
  "('k, 'z) crypto_lib_scheme \<Rightarrow> byte list \<Rightarrow> byte list \<Rightarrow> string \<Rightarrow> error + 'k" where
  "Decrypt_of_Encrypt P entropy secret password =
     (case EncryptKey P entropy secret password of
        Inl e \<Rightarrow> Inl e
      | Inr key \<Rightarrow> DecryptKey P key password)"

subsection \<open>A small executable instance of the primitives\<close>

text \<open>
  To run the model on concrete inputs the parameters need values. This instance is
  deliberately simple: a checksum stands for the hashes, an additive pad with a
  16-byte checksum tag for the authenticated cipher. The private-key check is the
  one of secp256k1: exactly 32 bytes, read big-endian, strictly between 0 and the
  group order.
\<close>

definition sum_bytes :: "byte list \<Rightarrow> byte" where
  "sum_bytes bs = foldr (+) bs 0"

definition be_nat :: "byte list \<Rightarrow> nat" where
  "be_nat bs = foldl (\<lambda>acc b. acc * 256 + unat b) 0 bs"

definition secp256k1N :: nat where
  "secp256k1N = 0xFFFFFFFFFFFFFFFFFFFFFFFFFFFFFFFEBAAEDCE6AF48A03BBFD25E8CD0364141"

definition demo_Sum256 :: "byte list \<Rightarrow> byte list" where
  "demo_Sum256 bs = replicate 32 (sum_bytes bs)"

definition demo_Seal :: "byte list \<Rightarrow> byte list \<Rightarrow> byte list \<Rightarrow> byte list" where
  "demo_Seal key nonce plaintext =
     (let pad = sum_bytes key + sum_bytes nonce
      in map (\<lambda>b. b + pad) plaintext @ replicate 16 (sum_bytes plaintext + pad))"

definition demo_Open :: "byte list \<Rightarrow> byte list \<Rightarrow> byte list \<Rightarrow> byte list option" where
  "demo_Open key nonce ciphertext =
     (if length ciphertext < 16 then None
      else let pad = sum_bytes key + sum_bytes nonce;
               n = length ciphertext - 16;
               plaintext = map (\<lambda>b. b - pad) (take n ciphertext)
           in if drop n ciphertext = replicate 16 (sum_bytes plaintext + pad)
              then Some plaintext else None)"

definition demo_ToECDSA :: "byte list \<Rightarrow> nat option" where
  "demo_ToECDSA d =
     (if length d \<noteq> 32 then None
      else if secp256k1N \<le> be_nat d then None
      else if be_nat d = 0 then None
      else Some (be_nat d))"

definition demo_crypto :: "nat crypto_lib" where
  "demo_crypto =
     \<lparr> sha256_Sum256 = demo_Sum256,
       crypto_Keccak256 = demo_Sum256,
       gcm_Seal = demo_Seal,
       gcm_Open = demo_Open,
       crypto_ToECDSA = demo_ToECDSA,
       address_Hex = (\<lambda>k. ''0x'' @ fmt_x [word_of_nat k]) \<rparr>"

text \<open>Fixed inputs for running the model: 44 random bytes, a valid key, a password.\<close>

definition demo_entropy :: "byte list" where
  "demo_entropy = replicate 32 7 @ replicate 12 9"

definition demo_secret :: "byte list" where
  "demo_secret =
     [11, 48, 85, 122, 159, 196, 233, 19,
      56, 93, 130, 167, 204, 241, 27, 64,
      101, 138, 175, 212, 249, 35, 72, 109,
      146, 183, 220, 6, 43, 80, 117, 154]"

definition demo_password :: string where
  "demo_password = ''correct horse battery staple''"

definition demo_key :: "nat" where
  "demo_key = 5060839947903921946047200562829942648158602755418440999382301892548366464410"

definition demo_derivedKey :: "byte list" where
  "demo_derivedKey = deriveKey demo_crypto demo_password (replicate 32 7)"

text \<open>The sealed demo secret, the same bytes with the tag altered, and the MAC.\<close>

definition demo_sealed :: "byte list" where
  "demo_sealed = demo_Seal demo_derivedKey (replicate 12 9) demo_secret"


definition demo_mac :: "byte list" where
  "demo_mac = demo_Sum256 (drop 16 demo_derivedKey @ demo_sealed)"


text \<open>
  A keystore record for the demo salt and IV, around given ciphertext and MAC bytes;
  with \<open>demo_sealed\<close> and \<open>demo_mac\<close> it is the record \<open>EncryptKey\<close> returns on the
  demo inputs.
\<close>

definition demo_record :: "byte list \<Rightarrow> byte list \<Rightarrow> EncryptedKey" where
  "demo_record ciphertext mac =
     \<lparr> Address = ''0x'' @ fmt_x [word_of_nat demo_key],
       Crypto = \<lparr> Cipher = ''aes-256-gcm'',
                  CipherText = ''0x'' @ fmt_x ciphertext,
                  CipherParams = \<lparr> IV = ''0x'' @ fmt_x (replicate 12 9) \<rparr>,
                  KDF = ''pbkdf2'',
                  KDFParams =
                    [''c'' \<mapsto> IntVal 262144,
                     ''dklen'' \<mapsto> IntVal 32,
                     ''prf'' \<mapsto> StrVal ''hmac-sha256'',
                     ''salt'' \<mapsto> StrVal (''0x'' @ fmt_x (replicate 32 7))],
                  MAC = ''0x'' @ fmt_x mac \<rparr>,
       Version = 3,
       ID = fmt_x (demo_Sum256 (bytes_of_string ''GoSignerVaultCLI'')) \<rparr>"

section \<open>Batch signer (package core, SignBatch)\<close>

text \<open>\<^verbatim>\<open>fmt.Sprintf("%d", n)\<close> for a non-negative index.\<close>

definition decimal_digit :: "nat \<Rightarrow> char" where
  "decimal_digit n = ''0123456789'' ! n"

fun fmt_d :: "nat \<Rightarrow> string" where
  "fmt_d n = (if n < 10 then [decimal_digit n] else fmt_d (n div 10) @ [decimal_digit (n mod 10)])"

declare fmt_d.simps [simp del]







subsection \<open>A signer and a batch to run the model on\<close>




section \<open>Transaction monitor (package tx, Monitor)\<close>

type_synonym Hash = "byte list"

record TransactionStatus =
  ts_Hash :: Hash
  ts_Status :: string
  ts_BlockNum :: "64 word"
  ts_GasUsed :: "64 word"
  ts_Error :: string
  ts_Timestamp :: nat

text \<open>
  What \<^verbatim>\<open>client.TransactionReceipt\<close> returns: an error (its message) or a receipt.
  go-ethereum reports a transaction that is not mined yet by the error whose message
  is \<^verbatim>\<open>not found\<close>, and a failed execution by the status 0.
\<close>

record Receipt =
  rc_Status :: "64 word"
  rc_BlockNumber :: nat
  rc_GasUsed :: "64 word"

definition ReceiptStatusFailed :: "64 word" where
  "ReceiptStatusFailed = 0"

text \<open>
  The monitor: its two maps, and, to speak about what happens over time, the set of
  hashes whose polling goroutine is alive, the log of receipt queries and the log
  of callback invocations. A callback is a function value, known here by a number;
  invoking it is recorded with the hash and the status it was handed.
\<close>

record Monitor =
  statuses :: "Hash \<rightharpoonup> TransactionStatus"
  callbacks :: "Hash \<rightharpoonup> nat list"
  polling :: "Hash set"
  queries :: "Hash list"
  dispatched :: "(Hash \<times> nat \<times> TransactionStatus) list"

definition NewMonitor :: Monitor where
  "NewMonitor =
     \<lparr> statuses = Map.empty, callbacks = Map.empty, polling = {}, queries = [],
       dispatched = [] \<rparr>"

text \<open>
  \<^verbatim>\<open>MonitorTransaction\<close>: refuses a hash that has a status; otherwise stores the
  pending status and starts the polling goroutine.
\<close>

definition MonitorTransaction :: "Monitor \<Rightarrow> Hash \<Rightarrow> nat \<Rightarrow> Monitor \<times> error option" where
  "MonitorTransaction m hash now =
     (case statuses m hash of
        Some _ \<Rightarrow> (m, Some AlreadyMonitored)
      | None \<Rightarrow>
          (m\<lparr> statuses := (statuses m)(hash \<mapsto>
                  \<lparr> ts_Hash = hash, ts_Status = ''pending'', ts_BlockNum = 0, ts_GasUsed = 0,
                    ts_Error = '''', ts_Timestamp = now \<rparr>),
               polling := insert hash (polling m) \<rparr>, None))"

text \<open>\<^verbatim>\<open>updateStatus\<close>: overwrites the fields and calls the callbacks of the hash in order.\<close>

definition updateStatus ::
  "Monitor \<Rightarrow> Hash \<Rightarrow> string \<Rightarrow> 64 word \<Rightarrow> 64 word \<Rightarrow> string \<Rightarrow> nat \<Rightarrow> Monitor" where
  "updateStatus m hash status blockNum gasUsed errMsg now =
     (case statuses m hash of
        None \<Rightarrow> m
      | Some txStatus \<Rightarrow>
          let txStatus' = txStatus\<lparr> ts_Status := status, ts_BlockNum := blockNum,
                                    ts_GasUsed := gasUsed, ts_Error := errMsg,
                                    ts_Timestamp := now \<rparr>;
              called = (case callbacks m hash of
                          None \<Rightarrow> []
                        | Some cbs \<Rightarrow> map (\<lambda>callback. (hash, callback, txStatus')) cbs)
          in m\<lparr> statuses := (statuses m)(hash \<mapsto> txStatus'),
                dispatched := dispatched m @ called \<rparr>)"

text \<open>
  One pass of the loop of \<^verbatim>\<open>monitorTransaction\<close> through the ticker branch, given
  what the receipt query returns. The boolean tells whether the loop goes on.
\<close>

definition monitor_tick ::
  "Monitor \<Rightarrow> Hash \<Rightarrow> string + Receipt \<Rightarrow> nat \<Rightarrow> Monitor \<times> bool" where
  "monitor_tick m hash answer now =
     (let m' = m\<lparr> queries := queries m @ [hash] \<rparr> in
      case answer of
        Inl err \<Rightarrow>
          if err = ''not found'' then (m', True)
          else (updateStatus m' hash ''error'' 0 0 err now, False)
      | Inr receipt \<Rightarrow>
          let status = (if rc_Status receipt = ReceiptStatusFailed then ''failed''
                        else ''success'')
          in (updateStatus m' hash status (word_of_nat (rc_BlockNumber receipt))
                (rc_GasUsed receipt) '''' now, False))"

definition AddCallback :: "Monitor \<Rightarrow> Hash \<Rightarrow> nat \<Rightarrow> Monitor" where
  "AddCallback m hash callback =
     m\<lparr> callbacks := (callbacks m)(hash \<mapsto>
           (case callbacks m hash of None \<Rightarrow> [] | Some cbs \<Rightarrow> cbs) @ [callback]) \<rparr>"

definition RemoveCallback :: "Monitor \<Rightarrow> Hash \<Rightarrow> nat \<Rightarrow> Monitor" where
  "RemoveCallback m hash callback =
     (case callbacks m hash of
        None \<Rightarrow> m
      | Some cbs \<Rightarrow>
          if callback \<in> set cbs then m\<lparr> callbacks := (callbacks m)(hash \<mapsto> remove1 callback cbs) \<rparr>
          else m)"

text \<open>
  What can happen to a monitor, one step at a time: a call of one of its methods,
  or the goroutine of a hash leaving its \<^verbatim>\<open>select\<close> through the ticker branch (with
  the answer of the receipt query) or through the cancellation branch. A goroutine
  that is not alive takes no step.
\<close>

datatype action =
    Call_MonitorTransaction Hash nat
  | Call_AddCallback Hash nat
  | Call_RemoveCallback Hash nat
  | Ticker Hash "string + Receipt" nat
  | Ctx_Done Hash

fun step :: "Monitor \<Rightarrow> action \<Rightarrow> Monitor" where
  "step m (Call_MonitorTransaction hash now) = fst (MonitorTransaction m hash now)"
| "step m (Call_AddCallback hash callback) = AddCallback m hash callback"
| "step m (Call_RemoveCallback hash callback) = RemoveCallback m hash callback"
| "step m (Ticker hash answer now) =
     (if hash \<notin> polling m then m
      else case monitor_tick m hash answer now of
             (m', True) \<Rightarrow> m'
           | (m', False) \<Rightarrow> m'\<lparr> polling := polling m' - {hash} \<rparr>)"
| "step m (Ctx_Done hash) = m\<lparr> polling := polling m - {hash} \<rparr>"

definition run :: "Monitor \<Rightarrow> action list \<Rightarrow> Monitor" where
  "run m as = foldl step m as"

text \<open>The terminal states, and what the logs hold about one hash.\<close>

definition terminal :: "Monitor \<Rightarrow> Hash \<Rightarrow> bool" where
  "terminal m hash =
     (case statuses m hash of
        None \<Rightarrow> False
      | Some s \<Rightarrow> ts_Status s = ''success'' \<or> ts_Status s = ''failed'' \<or> ts_Status s = ''error'')"

definition queries_of :: "Monitor \<Rightarrow> Hash \<Rightarrow> nat" where
  "queries_of m hash = length (filter (\<lambda>h. h = hash) (queries m))"

definition dispatched_of :: "Monitor \<Rightarrow> Hash \<Rightarrow> (Hash \<times> nat \<times> TransactionStatus) list" where
  "dispatched_of m hash = filter (\<lambda>d. fst d = hash) (dispatched m)"

definition status_of :: "Monitor \<Rightarrow> Hash \<Rightarrow> string option" where
  "status_of m hash = map_option ts_Status (statuses m hash)"

text \<open>While the goroutine of a hash is alive, the status of the hash is pending.\<close>

definition pending_while_polling :: "Monitor \<Rightarrow> bool" where
  "pending_while_polling m \<longleftrightarrow> (\<forall>h \<in> polling m. status_of m h = Some ''pending'')"

subsection \<open>A history to run the monitor on\<close>

definition demo_hash :: Hash where
  "demo_hash = [0xde, 0xad, 0xbe, 0xef]"

definition demo_failed_receipt :: Receipt where
  "demo_failed_receipt = \<lparr> rc_Status = 0, rc_BlockNumber = 12, rc_GasUsed = 21000 \<rparr>"

definition demo_good_receipt :: Receipt where
  "demo_good_receipt = \<lparr> rc_Status = 1, rc_BlockNumber = 13, rc_GasUsed = 21000 \<rparr>"

text \<open>The hash is watched, a callback registered, one poll finds nothing, the next a failed receipt.\<close>

definition demo_history :: "action list" where
  "demo_history =
     [Call_MonitorTransaction demo_hash 100,
      Call_AddCallback demo_hash 1,
      Ticker demo_hash (Inl ''not found'') 105,
      Ticker demo_hash (Inr demo_failed_receipt) 110]"

text \<open>What is tried afterwards: another tick, watching the hash again, a new callback, a cancellation.\<close>

definition demo_future :: "action list" where
  "demo_future =
     [Ticker demo_hash (Inr demo_good_receipt) 115,
      Call_MonitorTransaction demo_hash 120,
      Call_AddCallback demo_hash 2,
      Ctx_Done demo_hash]"

section \<open>Persistence (keystore/keystore.go and tx/history.go)\<close>

text \<open>
  The files of the machine: a map from paths to contents. \<^verbatim>\<open>os.WriteFile\<close> opens
  its file for writing, truncating it, writes the data and closes. What the
  operating system makes of that is the environment's choice: the write completes,
  the open fails and nothing is touched, or the write stops after some bytes (an
  I/O error, or the process dying there) and the file keeps what was written.
\<close>

type_synonym files = "string \<rightharpoonup> string"

datatype write_outcome = WriteCompletes | OpenFails | WriteStops nat

definition os_WriteFile :: "files \<Rightarrow> string \<Rightarrow> string \<Rightarrow> write_outcome \<Rightarrow> files \<times> bool" where
  "os_WriteFile fs name data outcome =
     (case outcome of
        WriteCompletes \<Rightarrow> (fs(name \<mapsto> data), True)
      | OpenFails \<Rightarrow> (fs, False)
      | WriteStops k \<Rightarrow> (fs(name \<mapsto> take k data), False))"

text \<open>
  \<^verbatim>\<open>filepath.Join\<close> of a directory and a file name; the cleaning of the joined path is
  left out. \<^verbatim>\<open>encoding/json\<close> is a parameter: marshalling and unmarshalling of a
  keystore record and marshalling of the history's record map, \<open>None\<close> for an error.
\<close>

definition filepath_Join :: "string \<Rightarrow> string \<Rightarrow> string" where
  "filepath_Join dir name = (if dir = [] then name else dir @ ''/'' @ name)"

record TransactionRecord =
  tr_Hash :: Hash
  tr_From :: string
  tr_To :: string
  tr_Value :: string
  tr_GasUsed :: "64 word"
  tr_GasPrice :: string
  tr_BlockNumber :: "64 word"
  tr_Status :: string
  tr_Timestamp :: nat
  tr_Data :: string
  tr_Error :: string

record json_lib =
  MarshalIndent_key :: "EncryptedKey \<Rightarrow> string option"
  Unmarshal_key :: "string \<Rightarrow> EncryptedKey option"
  MarshalIndent_records :: "(Hash \<rightharpoonup> TransactionRecord) \<Rightarrow> string option"

subsection \<open>Keystore manager\<close>

record Manager =
  keystoreDir :: string

definition key_path :: "Manager \<Rightarrow> string \<Rightarrow> string" where
  "key_path m name = filepath_Join (keystoreDir m) (name @ ''.json'')"

text \<open>\<^verbatim>\<open>SaveKey\<close>: marshal, then one \<^verbatim>\<open>os.WriteFile\<close> on the file of the name.\<close>

definition SaveKey ::
  "json_lib \<Rightarrow> Manager \<Rightarrow> files \<Rightarrow> write_outcome \<Rightarrow> EncryptedKey \<Rightarrow> string
     \<Rightarrow> files \<times> error option" where
  "SaveKey J m fs outcome key name =
     (let filePath = key_path m name in
      case MarshalIndent_key J key of
        None \<Rightarrow> (fs, Some MarshalFailed)
      | Some data \<Rightarrow>
          (case os_WriteFile fs filePath data outcome of
             (fs', True) \<Rightarrow> (fs', None)
           | (fs', False) \<Rightarrow> (fs', Some WriteFailed)))"

definition LoadKey :: "json_lib \<Rightarrow> Manager \<Rightarrow> files \<Rightarrow> string \<Rightarrow> error + EncryptedKey" where
  "LoadKey J m fs name =
     (case fs (key_path m name) of
        None \<Rightarrow> Inl ReadFailed
      | Some data \<Rightarrow>
          (case Unmarshal_key J data of
             None \<Rightarrow> Inl UnmarshalFailed
           | Some key \<Rightarrow> Inr key))"

subsection \<open>Transaction history\<close>

record History =
  records :: "Hash \<rightharpoonup> TransactionRecord"
  filePath :: string

text \<open>
  \<^verbatim>\<open>save\<close>: marshal the record map, create the directory (which may fail), then
  one \<^verbatim>\<open>os.WriteFile\<close> on the history file.
\<close>

definition save ::
  "json_lib \<Rightarrow> History \<Rightarrow> files \<Rightarrow> bool \<Rightarrow> write_outcome \<Rightarrow> files \<times> error option" where
  "save J h fs mkdir_ok outcome =
     (case MarshalIndent_records J (records h) of
        None \<Rightarrow> (fs, Some MarshalFailed)
      | Some data \<Rightarrow>
          if \<not> mkdir_ok then (fs, Some MkdirFailed)
          else (case os_WriteFile fs (filePath h) data outcome of
                  (fs', True) \<Rightarrow> (fs', None)
                | (fs', False) \<Rightarrow> (fs', Some WriteFailed)))"

text \<open>
  What \<^verbatim>\<open>AddTransaction\<close> reads of the transaction the client returns. A transaction
  without recipient has a nil \<^verbatim>\<open>To\<close>, on which \<^verbatim>\<open>String\<close> panics.
\<close>

record EthTx =
  etx_From :: string
  etx_To :: "string option"
  etx_Value :: int
  etx_GasPrice :: int
  etx_Data :: "byte list"

definition fmt_int :: "int \<Rightarrow> string" where
  "fmt_int i = (if i < 0 then ''-'' @ fmt_d (nat (- i)) else fmt_d (nat i))"

text \<open>
  \<^verbatim>\<open>AddTransaction\<close>. The answers of the client to \<^verbatim>\<open>TransactionByHash\<close> and to
  \<^verbatim>\<open>TransactionReceipt\<close> are arguments (\<open>Inl\<close> an error), as are the clock and what
  the operating system does with the directory and the write. The record is stored
  in the map first; then \<^verbatim>\<open>save\<close> runs and its error is the result.
\<close>

definition AddTransaction ::
  "json_lib \<Rightarrow> History \<Rightarrow> files \<Rightarrow> bool \<Rightarrow> write_outcome \<Rightarrow> Hash
     \<Rightarrow> string + (EthTx \<times> bool) \<Rightarrow> string + Receipt \<Rightarrow> nat
     \<Rightarrow> History \<times> files \<times> error option" where
  "AddTransaction J h fs mkdir_ok outcome hash tx_answer receipt_answer now =
     (case tx_answer of
        Inl _ \<Rightarrow> (h, fs, Some GetTransactionFailed)
      | Inr (tx, isPending) \<Rightarrow>
          (case (if isPending then Inr None else map_sum id Some receipt_answer) of
             Inl _ \<Rightarrow> (h, fs, Some GetReceiptFailed)
           | Inr receipt \<Rightarrow>
               (case etx_To tx of
                  None \<Rightarrow> (h, fs, Some Panic)
                | Some recipient \<Rightarrow>
                    let record0 =
                          \<lparr> tr_Hash = hash, tr_From = etx_From tx, tr_To = recipient,
                            tr_Value = fmt_int (etx_Value tx), tr_GasUsed = 0,
                            tr_GasPrice = fmt_int (etx_GasPrice tx), tr_BlockNumber = 0,
                            tr_Status = '''', tr_Timestamp = now,
                            tr_Data = ''0x'' @ fmt_x (etx_Data tx), tr_Error = '''' \<rparr>;
                        record =
                          (case receipt of
                             Some r \<Rightarrow>
                               record0\<lparr> tr_GasUsed := rc_GasUsed r,
                                        tr_BlockNumber := word_of_nat (rc_BlockNumber r),
                                        tr_Status := (if rc_Status r = ReceiptStatusFailed
                                                      then ''failed'' else ''success'') \<rparr>
                           | None \<Rightarrow> record0\<lparr> tr_Status := ''pending'' \<rparr>);
                        h' = h\<lparr> records := (records h)(hash \<mapsto> record) \<rparr>;
                        (fs', err) = save J h' fs mkdir_ok outcome
                    in (h', fs', err))))"

definition GetTransaction :: "History \<Rightarrow> Hash \<Rightarrow> error + TransactionRecord" where
  "GetTransaction h hash =
     (case records h hash of Some record \<Rightarrow> Inr record | None \<Rightarrow> Inl NotFound)"

subsection \<open>A stand-in for the JSON library, and files to run on\<close>

text \<open>
  The stand-in writes the address of a key, or the statuses it finds under the demo
  hash, between braces. Like JSON it cannot read a document whose closing brace is
  missing.
\<close>

definition braced :: "string \<Rightarrow> string option" where
  "braced s =
     (if 2 \<le> length s \<and> hd s = CHR ''{'' \<and> last s = CHR ''}'' then Some (butlast (tl s))
      else None)"

definition demo_json :: json_lib where
  "demo_json =
     \<lparr> MarshalIndent_key = (\<lambda>key. Some (''{'' @ Address key @ ''}'')),
       Unmarshal_key = (\<lambda>s. map_option (\<lambda>a. (demo_record [] [])\<lparr> Address := a \<rparr>) (braced s)),
       MarshalIndent_records =
         (\<lambda>rs. Some (''{'' @ (case rs demo_hash of None \<Rightarrow> [] | Some r \<Rightarrow> tr_Status r) @ ''}'')) \<rparr>"

definition demo_manager :: Manager where
  "demo_manager = \<lparr> keystoreDir = ''.keystore'' \<rparr>"

definition demo_files :: files where
  "demo_files = [''.keystore/main.json'' \<mapsto> ''{0xabcdef}'']"

definition demo_history_store :: History where
  "demo_history_store = \<lparr> records = Map.empty, filePath = ''history.json'' \<rparr>"

definition demo_ethtx :: EthTx where
  "demo_ethtx =
     \<lparr> etx_From = ''0x01'', etx_To = Some ''0x02'', etx_Value = 5, etx_GasPrice = 7,
       etx_Data = [] \<rparr>"

section \<open>Properties of the hexadecimal codec\<close>

lemma fromHexChar_hexdigit: "n < 16 \<Longrightarrow> fromHexChar (hexdigit n) = Some n"
proof -
  assume "n < 16"
  then have "n \<in> {0,1,2,3,4,5,6,7,8,9,10,11,12,13,14,15}"
    by (simp only: insert_iff empty_iff) arith
  then show ?thesis
    by (auto simp: fromHexChar_def hexdigit_def)
qed

lemma byte_hi_nibble: "unat (b :: byte) div 16 < 16"
proof -
  have "unat b < 2 ^ 8" using unsigned_less [of b] by simp
  then show ?thesis by simp
qed

lemma byte_nibbles: "word_of_nat (unat b div 16 * 16 + unat b mod 16) = (b :: byte)"
  by simp

lemma hex_DecodeString_fmt_x: "hex_DecodeString (fmt_x bs) = Some bs"
  by (induction bs) (simp_all add: fromHexChar_hexdigit byte_hi_nibble byte_nibbles)

lemma drop_prefix2_Cons2: "drop_prefix2 (c # d # s) = Inr s"
  by (simp add: drop_prefix2_def)

section \<open>Properties of the cipher engine\<close>

lemma io_ReadFull_Some:
  "io_ReadFull src n = Some (a, b) \<longleftrightarrow> n \<le> length src \<and> a = take n src \<and> b = drop n src"
  by (auto simp: io_ReadFull_def)

lemma EncryptKey_success:
  assumes ent: "44 \<le> length entropy"
    and len: "length (deriveKey P password (take 32 entropy)) = 32"
    and key: "crypto_ToECDSA P privateKey = Some k"
  shows "EncryptKey P entropy privateKey password =
     Inr \<lparr> Address = address_Hex P k,
           Crypto = \<lparr> Cipher = ''aes-256-gcm'',
                      CipherText = ''0x'' @ fmt_x (gcm_Seal P (deriveKey P password (take 32 entropy))
                                      (take 12 (drop 32 entropy)) privateKey),
                      CipherParams = \<lparr> IV = ''0x'' @ fmt_x (take 12 (drop 32 entropy)) \<rparr>,
                      KDF = ''pbkdf2'',
                      KDFParams =
                        [''c'' \<mapsto> IntVal 262144,
                         ''dklen'' \<mapsto> IntVal 32,
                         ''prf'' \<mapsto> StrVal ''hmac-sha256'',
                         ''salt'' \<mapsto> StrVal (''0x'' @ fmt_x (take 32 entropy))],
                      MAC = ''0x'' @ fmt_x (crypto_Keccak256 P
                              (drop 16 (deriveKey P password (take 32 entropy)) @
                               gcm_Seal P (deriveKey P password (take 32 entropy))
                                      (take 12 (drop 32 entropy)) privateKey)) \<rparr>,
           Version = 3,
           ID = fmt_x (crypto_Keccak256 P (bytes_of_string ''GoSignerVaultCLI'')) \<rparr>"
proof -
  have r1: "io_ReadFull entropy 32 = Some (take 32 entropy, drop 32 entropy)"
    using ent by (simp add: io_ReadFull_def)
  have r2: "io_ReadFull (drop 32 entropy) 12 = Some (take 12 (drop 32 entropy), drop 12 (drop 32 entropy))"
    using ent by (simp add: io_ReadFull_def)
  show ?thesis
    unfolding EncryptKey_def r1
    using ent by (simp add: r2 len key Let_def aes_NewCipher_def aesGCM_Seal_def go_slice_def)
qed

lemma EncryptKey_InrD:
  assumes "EncryptKey P entropy privateKey password = Inr key"
  shows "44 \<le> length entropy \<and> length (deriveKey P password (take 32 entropy)) = 32
         \<and> (\<exists>k. crypto_ToECDSA P privateKey = Some k)"
  using assms
  by (auto simp: EncryptKey_def io_ReadFull_def aes_NewCipher_def aesGCM_Seal_def go_slice_def Let_def
      split: option.splits sum.splits if_splits prod.splits)

lemma EncryptKey_Inr:
  assumes "EncryptKey P entropy privateKey password = Inr key"
  obtains k where "crypto_ToECDSA P privateKey = Some k" "44 \<le> length entropy"
    "length (deriveKey P password (take 32 entropy)) = 32"
    "key = \<lparr> Address = address_Hex P k,
           Crypto = \<lparr> Cipher = ''aes-256-gcm'',
                      CipherText = ''0x'' @ fmt_x (gcm_Seal P (deriveKey P password (take 32 entropy))
                                      (take 12 (drop 32 entropy)) privateKey),
                      CipherParams = \<lparr> IV = ''0x'' @ fmt_x (take 12 (drop 32 entropy)) \<rparr>,
                      KDF = ''pbkdf2'',
                      KDFParams =
                        [''c'' \<mapsto> IntVal 262144,
                         ''dklen'' \<mapsto> IntVal 32,
                         ''prf'' \<mapsto> StrVal ''hmac-sha256'',
                         ''salt'' \<mapsto> StrVal (''0x'' @ fmt_x (take 32 entropy))],
                      MAC = ''0x'' @ fmt_x (crypto_Keccak256 P
                              (drop 16 (deriveKey P password (take 32 entropy)) @
                               gcm_Seal P (deriveKey P password (take 32 entropy))
                                      (take 12 (drop 32 entropy)) privateKey)) \<rparr>,
           Version = 3,
           ID = fmt_x (crypto_Keccak256 P (bytes_of_string ''GoSignerVaultCLI'')) \<rparr>"
proof -
  from EncryptKey_InrD [OF assms] obtain k where
    k: "crypto_ToECDSA P privateKey = Some k" and e: "44 \<le> length entropy"
    and l: "length (deriveKey P password (take 32 entropy)) = 32" by blast
  from EncryptKey_success [OF e l k] assms that [OF k e l] show thesis by simp
qed

lemma hex_field_0x: "hex_field (''0x'' @ fmt_x bs) bs"
  by (simp add: hex_field_def hex_DecodeString_fmt_x)

lemma DecryptKey_wellformed:
  assumes "KDFParams (Crypto key) ''salt'' = Some (StrVal saltHex)"
    and "hex_field saltHex salt"
    and "hex_field (IV (CipherParams (Crypto key))) iv"
    and "hex_field (CipherText (Crypto key)) ciphertext"
    and "length iv = 12"
    and "length (deriveKey P password salt) = 32"
  shows "DecryptKey P key password =
     (case gcm_Open P (deriveKey P password salt) iv ciphertext of
        None \<Rightarrow> Inl DecryptFailed
      | Some plaintext \<Rightarrow>
          (case crypto_ToECDSA P plaintext of
             None \<Rightarrow> Inl ToECDSAFailed
           | Some k \<Rightarrow> Inr k))"
  using assms
  by (simp add: DecryptKey_def drop_prefix2_def hex_field_def aes_NewCipher_def
      aesGCM_Open_def split: option.splits)


text \<open>
  Claim C2, as the code has it. When the random source delivers its 44 bytes, the
  derived key has the 32 bytes of a SHA-256 digest, the cipher opens what it sealed,
  and the secret is a valid private key \<open>k\<close>, then decrypting the record that
  \<open>EncryptKey\<close> built, under the same password, returns \<open>k\<close>: the key read from
  exactly the original secret bytes.
\<close>

theorem Decrypt_of_Encrypt_roundtrip:
  assumes "44 \<le> length entropy"
    and "length (deriveKey P password (take 32 entropy)) = 32"
    and "crypto_ToECDSA P secret = Some k"
    and "gcm_Open P (deriveKey P password (take 32 entropy)) (take 12 (drop 32 entropy))
           (gcm_Seal P (deriveKey P password (take 32 entropy)) (take 12 (drop 32 entropy)) secret)
         = Some secret"
  shows "Decrypt_of_Encrypt P entropy secret password = Inr k"
proof -
  let ?salt = "take 32 entropy" and ?iv = "take 12 (drop 32 entropy)"
  have iv: "length ?iv = 12" using assms(1) by simp
  obtain key where enc: "EncryptKey P entropy secret password = Inr key"
    and salt: "KDFParams (Crypto key) ''salt'' = Some (StrVal (''0x'' @ fmt_x ?salt))"
    and ivf: "IV (CipherParams (Crypto key)) = ''0x'' @ fmt_x ?iv"
    and ct: "CipherText (Crypto key) =
               ''0x'' @ fmt_x (gcm_Seal P (deriveKey P password ?salt) ?iv secret)"
    using EncryptKey_success [OF assms(1) assms(2) assms(3)] by simp
  have hi: "hex_field (IV (CipherParams (Crypto key))) ?iv"
    and hc: "hex_field (CipherText (Crypto key))
               (gcm_Seal P (deriveKey P password ?salt) ?iv secret)"
    unfolding ivf ct by (rule hex_field_0x)+
  have "DecryptKey P key password = Inr k"
    using DecryptKey_wellformed [OF salt hex_field_0x hi hc iv assms(2)] assms(3) assms(4)
    by simp
  with enc show ?thesis
    by (simp add: Decrypt_of_Encrypt_def)
qed

lemma demo_len: "length (deriveKey demo_crypto pw salt) = 32"
  by (simp add: deriveKey_def demo_crypto_def demo_Sum256_def)

lemma be_nat_demo: "be_nat demo_secret = demo_key"
  by (simp add: be_nat_def demo_secret_def demo_key_def)

lemma demo_secret_valid: "crypto_ToECDSA demo_crypto demo_secret = Some demo_key"
  by (simp add: demo_crypto_def demo_ToECDSA_def be_nat_demo) (simp add: demo_secret_def demo_key_def secp256k1N_def)

lemma demo_Open_Seal: "demo_Open key nonce (demo_Seal key nonce p) = Some p"
  by (simp add: demo_Open_def demo_Seal_def Let_def comp_def)

lemma demo_gcm: "gcm_Open demo_crypto key nonce (gcm_Seal demo_crypto key nonce p) = Some p"
  by (simp add: demo_crypto_def demo_Open_Seal)

lemma demo_entropy_len: "length demo_entropy = 44"
  by (simp add: demo_entropy_def)

text \<open>The round trip on the demo inputs.\<close>

theorem Decrypt_of_Encrypt_roundtrip_witness:
  "Decrypt_of_Encrypt demo_crypto demo_entropy demo_secret demo_password =
     Inr demo_key"
  using Decrypt_of_Encrypt_roundtrip [of demo_entropy demo_crypto demo_password demo_secret,
      OF _ demo_len demo_secret_valid demo_gcm]
  by (simp add: demo_entropy_len)

text \<open>
  The round trip does not hold for every secret: a one-byte secret is no private
  key, the address cannot be computed, and no record is produced.
\<close>

theorem roundtrip_short_secret_counterexample:
  "Decrypt_of_Encrypt demo_crypto demo_entropy [1] demo_password = Inl Panic"
  by (simp add: Decrypt_of_Encrypt_def EncryptKey_def io_ReadFull_def demo_entropy_len
      aes_NewCipher_def aesGCM_Seal_def go_slice_def demo_len Let_def)
     (simp add: demo_crypto_def demo_ToECDSA_def demo_entropy_def)


text \<open>
  Claim C9. Every record that \<open>EncryptKey\<close> returns carries the hex text of
  Keccak-256 of the fixed string \<^verbatim>\<open>GoSignerVaultCLI\<close> as its ID, so two records made
  from any two keys, passwords and random bytes have the same ID; every record
  declares version 3, cipher \<^verbatim>\<open>aes-256-gcm\<close> and KDF \<^verbatim>\<open>pbkdf2\<close>.
\<close>

theorem EncryptKey_constant_ID:
  assumes "EncryptKey P entropy1 privateKey1 password1 = Inr key1"
    and "EncryptKey P entropy2 privateKey2 password2 = Inr key2"
  shows "ID key1 = fmt_x (crypto_Keccak256 P (bytes_of_string ''GoSignerVaultCLI''))
       \<and> ID key2 = ID key1
       \<and> Version key1 = 3
       \<and> Cipher (Crypto key1) = ''aes-256-gcm''
       \<and> KDF (Crypto key1) = ''pbkdf2''"
proof -
  from assms(1) have 1: "ID key1 = fmt_x (crypto_Keccak256 P (bytes_of_string ''GoSignerVaultCLI''))"
    "Version key1 = 3" "Cipher (Crypto key1) = ''aes-256-gcm''" "KDF (Crypto key1) = ''pbkdf2''"
    by (auto elim!: EncryptKey_Inr)
  from assms(2) have 2: "ID key2 = fmt_x (crypto_Keccak256 P (bytes_of_string ''GoSignerVaultCLI''))"
    by (auto elim!: EncryptKey_Inr)
  from 1 2 show ?thesis by simp
qed

lemma demo_EncryptKey_Inr:
  "\<exists>key. EncryptKey demo_crypto demo_entropy demo_secret pw = Inr key"
  using EncryptKey_success [OF _ demo_len demo_secret_valid, of demo_entropy pw]
  by (simp add: demo_entropy_len)

text \<open>Two demo records made under different passwords share their ID.\<close>

theorem EncryptKey_constant_ID_witness:
  "\<exists>key1 key2.
      EncryptKey demo_crypto demo_entropy demo_secret demo_password = Inr key1
    \<and> EncryptKey demo_crypto demo_entropy demo_secret ''another password'' = Inr key2
    \<and> ID key2 = ID key1 \<and> Version key1 = 3
    \<and> Cipher (Crypto key1) = ''aes-256-gcm'' \<and> KDF (Crypto key1) = ''pbkdf2''"
proof -
  obtain key1 where 1: "EncryptKey demo_crypto demo_entropy demo_secret demo_password = Inr key1"
    using demo_EncryptKey_Inr by blast
  obtain key2 where 2: "EncryptKey demo_crypto demo_entropy demo_secret ''another password'' = Inr key2"
    using demo_EncryptKey_Inr by blast
  from EncryptKey_constant_ID [OF 1 2] 1 2 show ?thesis by blast
qed

text \<open>
  Claim C1, what the code does. A record of \<open>EncryptKey\<close> declares PBKDF2 with
  262144 iterations of HMAC-SHA256 and a 32-byte key, while the ciphertext it carries
  is sealed under one SHA-256 of the password followed by the salt: no iteration
  takes place.
\<close>

theorem EncryptKey_declares_pbkdf2_hashes_once:
  assumes "EncryptKey P entropy privateKey password = Inr key"
  shows "KDF (Crypto key) = ''pbkdf2''
       \<and> KDFParams (Crypto key) ''c'' = Some (IntVal 262144)
       \<and> KDFParams (Crypto key) ''prf'' = Some (StrVal ''hmac-sha256'')
       \<and> KDFParams (Crypto key) ''dklen'' = Some (IntVal 32)
       \<and> CipherText (Crypto key) =
           ''0x'' @ fmt_x (gcm_Seal P
                     (sha256_Sum256 P (bytes_of_string password @ take 32 entropy))
                     (take 12 (drop 32 entropy)) privateKey)"
  using assms by (auto elim!: EncryptKey_Inr simp: deriveKey_def)

text \<open>The same on the demo inputs.\<close>

theorem EncryptKey_declares_pbkdf2_hashes_once_witness:
  "\<exists>key. EncryptKey demo_crypto demo_entropy demo_secret demo_password = Inr key
     \<and> KDF (Crypto key) = ''pbkdf2''
     \<and> KDFParams (Crypto key) ''c'' = Some (IntVal 262144)
     \<and> CipherText (Crypto key) =
           ''0x'' @ fmt_x (gcm_Seal demo_crypto
                     (sha256_Sum256 demo_crypto (bytes_of_string demo_password @ take 32 demo_entropy))
                     (take 12 (drop 32 demo_entropy)) demo_secret)"
proof -
  obtain key where 1: "EncryptKey demo_crypto demo_entropy demo_secret demo_password = Inr key"
    using demo_EncryptKey_Inr by blast
  from EncryptKey_declares_pbkdf2_hashes_once [OF 1] 1 show ?thesis by blast
qed



lemma demo_record_fields:
  "KDFParams (Crypto (demo_record ct mac)) ''salt'' = Some (StrVal (''0x'' @ fmt_x (replicate 32 7)))"
  "hex_field (''0x'' @ fmt_x (replicate 32 7)) (replicate 32 7)"
  "hex_field (IV (CipherParams (Crypto (demo_record ct mac)))) (replicate 12 9)"
  "hex_field (CipherText (Crypto (demo_record ct mac))) ct"
  using hex_field_0x by (simp_all add: demo_record_def)












text \<open>
  Claim C10. After the tag has verified, \<open>DecryptKey\<close> still requires the plaintext
  to be a valid private key: when \<^verbatim>\<open>Open\<close> releases a plaintext that \<^verbatim>\<open>ToECDSA\<close>
  rejects, the result is the conversion error and not the plaintext.
\<close>

theorem DecryptKey_rejects_invalid_key_material:
  assumes "KDFParams (Crypto key) ''salt'' = Some (StrVal saltHex)"
    and "hex_field saltHex salt"
    and "hex_field (IV (CipherParams (Crypto key))) iv"
    and "hex_field (CipherText (Crypto key)) ciphertext"
    and "length iv = 12"
    and "length (deriveKey P password salt) = 32"
    and "gcm_Open P (deriveKey P password salt) iv ciphertext = Some plaintext"
    and "crypto_ToECDSA P plaintext = None"
  shows "DecryptKey P key password = Inl ToECDSAFailed"
  using DecryptKey_wellformed [OF assms(1-6)] assms(7,8) by simp

text \<open>A record sealing the single byte 1 under the demo password is such an input.\<close>

theorem DecryptKey_rejects_invalid_key_material_witness:
  "DecryptKey demo_crypto
     (demo_record (demo_Seal demo_derivedKey (replicate 12 9) [1]) demo_mac) demo_password
   = Inl ToECDSAFailed"
proof -
  have l: "length (deriveKey demo_crypto demo_password (replicate 32 7)) = 32"
    by (rule demo_len)
  have n: "length (replicate 12 (9 :: byte)) = 12" by simp
  have o: "gcm_Open demo_crypto (deriveKey demo_crypto demo_password (replicate 32 7))
             (replicate 12 9) (demo_Seal demo_derivedKey (replicate 12 9) [1]) = Some [1]"
    by (simp add: demo_crypto_def demo_Open_Seal demo_derivedKey_def)
  have k: "crypto_ToECDSA demo_crypto [1] = None"
    by (simp add: demo_crypto_def demo_ToECDSA_def)
  from DecryptKey_rejects_invalid_key_material [OF demo_record_fields n l o k]
  show ?thesis .
qed

section \<open>Properties of the batch signer\<close>











section \<open>Properties of the transaction monitor\<close>

lemma updateStatus_polling [simp]: "polling (updateStatus m h s b g e n) = polling m"
  by (simp add: updateStatus_def Let_def split: option.splits)

lemma updateStatus_other: "h' \<noteq> h \<Longrightarrow> statuses (updateStatus m h s b g e n) h' = statuses m h'"
  by (simp add: updateStatus_def Let_def split: option.splits)

lemma updateStatus_queries [simp]: "queries (updateStatus m h s b g e n) = queries m"
  by (simp add: updateStatus_def Let_def split: option.splits)

lemma updateStatus_dispatched_other:
  "h' \<noteq> h \<Longrightarrow> filter (\<lambda>d. fst d = h') (dispatched (updateStatus m h s b g e n))
     = filter (\<lambda>d. fst d = h') (dispatched m)"
  by (auto simp: updateStatus_def Let_def filter_empty_conv split: option.splits)

lemma inv_step: "pending_while_polling m \<Longrightarrow> pending_while_polling (step m a)"
proof (cases a)
  case (Call_MonitorTransaction h now)
  assume "pending_while_polling m"
  then show ?thesis using Call_MonitorTransaction
    by (auto simp: pending_while_polling_def MonitorTransaction_def status_of_def split: option.splits)
next
  case (Call_AddCallback h c)
  assume "pending_while_polling m"
  then show ?thesis using Call_AddCallback
    by (auto simp: pending_while_polling_def AddCallback_def status_of_def)
next
  case (Call_RemoveCallback h c)
  assume "pending_while_polling m"
  then show ?thesis using Call_RemoveCallback
    by (auto simp: pending_while_polling_def RemoveCallback_def status_of_def split: option.splits)
next
  case (Ticker h ans now)
  assume "pending_while_polling m"
  then show ?thesis using Ticker
    by (auto simp: pending_while_polling_def monitor_tick_def status_of_def Let_def updateStatus_other
        split: sum.splits if_splits)
next
  case (Ctx_Done h)
  assume "pending_while_polling m"
  then show ?thesis using Ctx_Done
    by (auto simp: pending_while_polling_def status_of_def)
qed

lemma inv_run: "pending_while_polling m \<Longrightarrow> pending_while_polling (run m as)"
  unfolding run_def by (induction as arbitrary: m) (auto intro: inv_step)

lemma inv_init: "pending_while_polling NewMonitor"
  by (simp add: pending_while_polling_def NewMonitor_def)

lemma terminal_not_polling:
  "pending_while_polling m \<Longrightarrow> terminal m h \<Longrightarrow> h \<notin> polling m"
  by (auto simp: pending_while_polling_def terminal_def status_of_def split: option.splits)

lemma terminal_step:
  assumes "pending_while_polling m" "terminal m h"
  shows "statuses (step m a) h = statuses m h \<and> queries_of (step m a) h = queries_of m h
       \<and> dispatched_of (step m a) h = dispatched_of m h"
proof -
  have np: "h \<notin> polling m" using assms by (rule terminal_not_polling)
  obtain s where s: "statuses m h = Some s" using assms(2) by (auto simp: terminal_def split: option.splits)
  show ?thesis
  proof (cases a)
    case (Ticker h' ans now)
    then show ?thesis using np
      by (auto simp: monitor_tick_def Let_def queries_of_def dispatched_of_def updateStatus_other
          updateStatus_dispatched_other split: sum.splits)
  qed (auto simp: MonitorTransaction_def AddCallback_def RemoveCallback_def s queries_of_def
        dispatched_of_def split: option.splits)
qed

lemma terminal_run:
  assumes "pending_while_polling m" "terminal m h"
  shows "statuses (run m as) h = statuses m h \<and> queries_of (run m as) h = queries_of m h
       \<and> dispatched_of (run m as) h = dispatched_of m h"
  using assms unfolding run_def
proof (induction as arbitrary: m)
  case Nil
  then show ?case by simp
next
  case (Cons a as)
  have t: "statuses (step m a) h = statuses m h \<and> queries_of (step m a) h = queries_of m h
       \<and> dispatched_of (step m a) h = dispatched_of m h"
    using Cons.prems by (rule terminal_step)
  then have "terminal (step m a) h" using Cons.prems(2) by (simp add: terminal_def)
  with Cons.IH [OF inv_step [OF Cons.prems(1)]] t show ?case by simp
qed


lemma polling_pending:
  "pending_while_polling m \<Longrightarrow> h \<in> polling m \<Longrightarrow>
     \<exists>s. statuses m h = Some s \<and> ts_Status s = ''pending''"
  by (auto simp: pending_while_polling_def status_of_def)

lemma ticker_edges:
  assumes "pending_while_polling m" "h \<in> polling m"
  shows "(rc_Status r \<noteq> ReceiptStatusFailed \<longrightarrow>
            status_of (step m (Ticker h (Inr r) now)) h = Some ''success''
            \<and> h \<notin> polling (step m (Ticker h (Inr r) now)))
       \<and> (rc_Status r = ReceiptStatusFailed \<longrightarrow>
            status_of (step m (Ticker h (Inr r) now)) h = Some ''failed''
            \<and> h \<notin> polling (step m (Ticker h (Inr r) now)))
       \<and> (e \<noteq> ''not found'' \<longrightarrow>
            status_of (step m (Ticker h (Inl e) now)) h = Some ''error''
            \<and> h \<notin> polling (step m (Ticker h (Inl e) now)))
       \<and> status_of (step m (Ticker h (Inl ''not found'') now)) h = Some ''pending''
       \<and> h \<in> polling (step m (Ticker h (Inl ''not found'') now))"
  using polling_pending [OF assms] assms(2)
  by (auto simp: monitor_tick_def Let_def status_of_def updateStatus_def)

lemma step_edge:
  assumes "pending_while_polling m"
  shows "status_of (step m a) h = status_of m h
       \<or> (status_of m h = None \<and> status_of (step m a) h = Some ''pending'')
       \<or> (status_of m h = Some ''pending''
           \<and> (status_of (step m a) h = Some ''success''
              \<or> status_of (step m a) h = Some ''failed''
              \<or> status_of (step m a) h = Some ''error''))"
proof (cases a)
  case (Call_MonitorTransaction h' now)
  then show ?thesis
    by (auto simp: MonitorTransaction_def status_of_def split: option.splits)
next
  case (Call_AddCallback h' c)
  then show ?thesis by (simp add: AddCallback_def status_of_def)
next
  case (Call_RemoveCallback h' c)
  then show ?thesis by (simp add: RemoveCallback_def status_of_def split: option.splits)
next
  case (Ticker h' ans now)
  consider (idle) "h' \<notin> polling m" | (other) "h' \<in> polling m" "h' \<noteq> h"
    | (here) "h' = h" "h \<in> polling m" by blast
  then show ?thesis
  proof cases
    case idle
    with Ticker show ?thesis by simp
  next
    case other
    then have "statuses (step m a) h = statuses m h"
      using Ticker
      by (auto simp: monitor_tick_def Let_def updateStatus_other split: sum.splits)
    then show ?thesis by (simp add: status_of_def)
  next
    case here
    with polling_pending [OF assms, of h] Ticker show ?thesis
      by (auto simp: monitor_tick_def Let_def status_of_def updateStatus_def split: sum.splits)
  qed
next
  case (Ctx_Done h')
  then show ?thesis by (simp add: status_of_def)
qed

text \<open>
  Claim C6. Let \<open>m\<close> be a monitor reached from a new one by any history of calls,
  ticks and cancellations. Every further step moves the status of a hash along the
  relation or leaves it: nothing to pending, pending to success, failed or error.
  While the goroutine of the hash is alive the status is pending, and a tick moves it
  to success on a receipt whose status is not the failed one, to failed on a receipt
  with the failed status, to error on a query error other than \<^verbatim>\<open>not found\<close>, and
  keeps it pending, the goroutine alive, on \<^verbatim>\<open>not found\<close>. Once the status is
  success, failed or error, the goroutine is gone, and whatever happens afterwards
  the stored status, the number of receipt queries for the hash and the callback
  invocations for the hash stay as they are.
\<close>

theorem monitor_state_machine:
  assumes "m = run NewMonitor history"
  shows "(status_of (step m a) hash = status_of m hash
          \<or> (status_of m hash = None \<and> status_of (step m a) hash = Some ''pending'')
          \<or> (status_of m hash = Some ''pending''
              \<and> (status_of (step m a) hash = Some ''success''
                 \<or> status_of (step m a) hash = Some ''failed''
                 \<or> status_of (step m a) hash = Some ''error'')))
       \<and> (hash \<in> polling m \<longrightarrow>
            status_of m hash = Some ''pending''
          \<and> (rc_Status receipt \<noteq> ReceiptStatusFailed \<longrightarrow>
               status_of (step m (Ticker hash (Inr receipt) now)) hash = Some ''success'')
          \<and> (rc_Status receipt = ReceiptStatusFailed \<longrightarrow>
               status_of (step m (Ticker hash (Inr receipt) now)) hash = Some ''failed'')
          \<and> (err \<noteq> ''not found'' \<longrightarrow>
               status_of (step m (Ticker hash (Inl err) now)) hash = Some ''error'')
          \<and> status_of (step m (Ticker hash (Inl ''not found'') now)) hash = Some ''pending''
          \<and> hash \<in> polling (step m (Ticker hash (Inl ''not found'') now)))
       \<and> (terminal m hash \<longrightarrow>
            hash \<notin> polling m
          \<and> statuses (run m future) hash = statuses m hash
          \<and> queries_of (run m future) hash = queries_of m hash
          \<and> dispatched_of (run m future) hash = dispatched_of m hash)"
proof -
  have inv: "pending_while_polling m"
    unfolding assms using inv_init by (rule inv_run)
  have edge: "status_of (step m a) hash = status_of m hash
          \<or> (status_of m hash = None \<and> status_of (step m a) hash = Some ''pending'')
          \<or> (status_of m hash = Some ''pending''
              \<and> (status_of (step m a) hash = Some ''success''
                 \<or> status_of (step m a) hash = Some ''failed''
                 \<or> status_of (step m a) hash = Some ''error''))"
    using inv by (rule step_edge)
  have alive: "hash \<in> polling m \<longrightarrow>
            status_of m hash = Some ''pending''
          \<and> (rc_Status receipt \<noteq> ReceiptStatusFailed \<longrightarrow>
               status_of (step m (Ticker hash (Inr receipt) now)) hash = Some ''success'')
          \<and> (rc_Status receipt = ReceiptStatusFailed \<longrightarrow>
               status_of (step m (Ticker hash (Inr receipt) now)) hash = Some ''failed'')
          \<and> (err \<noteq> ''not found'' \<longrightarrow>
               status_of (step m (Ticker hash (Inl err) now)) hash = Some ''error'')
          \<and> status_of (step m (Ticker hash (Inl ''not found'') now)) hash = Some ''pending''
          \<and> hash \<in> polling (step m (Ticker hash (Inl ''not found'') now))"
  proof
    assume p: "hash \<in> polling m"
    from polling_pending [OF inv p] have "status_of m hash = Some ''pending''"
      by (auto simp: status_of_def)
    with ticker_edges [OF inv p, where r = receipt and now = now and e = err] show "status_of m hash = Some ''pending''
          \<and> (rc_Status receipt \<noteq> ReceiptStatusFailed \<longrightarrow>
               status_of (step m (Ticker hash (Inr receipt) now)) hash = Some ''success'')
          \<and> (rc_Status receipt = ReceiptStatusFailed \<longrightarrow>
               status_of (step m (Ticker hash (Inr receipt) now)) hash = Some ''failed'')
          \<and> (err \<noteq> ''not found'' \<longrightarrow>
               status_of (step m (Ticker hash (Inl err) now)) hash = Some ''error'')
          \<and> status_of (step m (Ticker hash (Inl ''not found'') now)) hash = Some ''pending''
          \<and> hash \<in> polling (step m (Ticker hash (Inl ''not found'') now))"
      by blast
  qed
  have final: "terminal m hash \<longrightarrow>
            hash \<notin> polling m
          \<and> statuses (run m future) hash = statuses m hash
          \<and> queries_of (run m future) hash = queries_of m hash
          \<and> dispatched_of (run m future) hash = dispatched_of m hash"
    using terminal_not_polling [OF inv] terminal_run [OF inv] by blast
  from edge alive final show ?thesis by blast
qed


lemma demo_history_run:
  "run NewMonitor demo_history =
     \<lparr> statuses = [demo_hash \<mapsto>
          \<lparr> ts_Hash = demo_hash, ts_Status = ''failed'', ts_BlockNum = 12, ts_GasUsed = 21000,
            ts_Error = '''', ts_Timestamp = 110 \<rparr>],
       callbacks = [demo_hash \<mapsto> [1]],
       polling = {},
       queries = [demo_hash, demo_hash],
       dispatched = [(demo_hash, 1,
          \<lparr> ts_Hash = demo_hash, ts_Status = ''failed'', ts_BlockNum = 12, ts_GasUsed = 21000,
            ts_Error = '''', ts_Timestamp = 110 \<rparr>)] \<rparr>"
  by (simp add: run_def demo_history_def NewMonitor_def MonitorTransaction_def AddCallback_def
      monitor_tick_def updateStatus_def Let_def ReceiptStatusFailed_def demo_failed_receipt_def)

text \<open>
  A hash that is watched and then reported failed; the later tick, the second
  \<^verbatim>\<open>MonitorTransaction\<close>, the new callback and the cancellation change nothing.
\<close>

theorem monitor_state_machine_witness:
  "status_of (run NewMonitor [Call_MonitorTransaction demo_hash 100]) demo_hash = Some ''pending''
   \<and> status_of (step (run NewMonitor [Call_MonitorTransaction demo_hash 100])
                 (Ticker demo_hash (Inr demo_good_receipt) 105)) demo_hash = Some ''success''
   \<and> status_of (run NewMonitor demo_history) demo_hash = Some ''failed''
   \<and> statuses (run (run NewMonitor demo_history) demo_future) demo_hash
       = statuses (run NewMonitor demo_history) demo_hash
   \<and> queries_of (run (run NewMonitor demo_history) demo_future) demo_hash = 2
   \<and> length (dispatched_of (run (run NewMonitor demo_history) demo_future) demo_hash) = 1"
proof -
  have alive: "demo_hash \<in> polling (run NewMonitor [Call_MonitorTransaction demo_hash 100])"
    by (simp add: run_def NewMonitor_def MonitorTransaction_def)
  have good: "rc_Status demo_good_receipt \<noteq> ReceiptStatusFailed"
    by (simp add: demo_good_receipt_def ReceiptStatusFailed_def)
  have failed: "status_of (run NewMonitor demo_history) demo_hash = Some ''failed''"
    by (simp add: demo_history_run status_of_def)
  then have final: "terminal (run NewMonitor demo_history) demo_hash"
    by (auto simp: terminal_def status_of_def split: option.splits)
  have q: "queries_of (run NewMonitor demo_history) demo_hash = 2"
    and d: "length (dispatched_of (run NewMonitor demo_history) demo_hash) = 1"
    by (simp_all add: demo_history_run queries_of_def dispatched_of_def)
  from monitor_state_machine [OF refl, of "[Call_MonitorTransaction demo_hash 100]" _ demo_hash
         demo_good_receipt 105] alive good
  have 1: "status_of (run NewMonitor [Call_MonitorTransaction demo_hash 100]) demo_hash
             = Some ''pending''
     \<and> status_of (step (run NewMonitor [Call_MonitorTransaction demo_hash 100])
                 (Ticker demo_hash (Inr demo_good_receipt) 105)) demo_hash = Some ''success''"
    by blast
  from monitor_state_machine [OF refl, of demo_history _ demo_hash _ _ _ demo_future] final
  have 2: "statuses (run (run NewMonitor demo_history) demo_future) demo_hash
       = statuses (run NewMonitor demo_history) demo_hash
   \<and> queries_of (run (run NewMonitor demo_history) demo_future) demo_hash
       = queries_of (run NewMonitor demo_history) demo_hash
   \<and> dispatched_of (run (run NewMonitor demo_history) demo_future) demo_hash
       = dispatched_of (run NewMonitor demo_history) demo_hash"
    by blast
  from 1 2 failed q d show ?thesis by simp
qed

section \<open>Properties of the persistence code\<close>

lemma os_WriteFile_other: "p \<noteq> name \<Longrightarrow> fst (os_WriteFile fs name data oc) p = fs p"
  by (simp add: os_WriteFile_def split: write_outcome.splits)

text \<open>
  Claim C7, as the code has it. \<^verbatim>\<open>SaveKey\<close> and \<^verbatim>\<open>save\<close> write the marshalled
  content with one \<^verbatim>\<open>os.WriteFile\<close> on the destination itself; no other path is
  touched, so there is no temporary file and no rename. When the write completes the
  destination holds the complete content. When it stops after \<open>k\<close> bytes the
  destination holds the first \<open>k\<close> bytes of the content, and the error is returned.
\<close>

theorem writes_go_straight_to_the_file:
  assumes "MarshalIndent_key J key = Some data"
    and "MarshalIndent_records J (records h) = Some doc"
  shows "SaveKey J m fs WriteCompletes key name = (fs(key_path m name \<mapsto> data), None)
       \<and> SaveKey J m fs (WriteStops k) key name
           = (fs(key_path m name \<mapsto> take k data), Some WriteFailed)
       \<and> SaveKey J m fs OpenFails key name = (fs, Some WriteFailed)
       \<and> (\<forall>p. p \<noteq> key_path m name \<longrightarrow> fst (SaveKey J m fs outcome key name) p = fs p)
       \<and> save J h fs True WriteCompletes = (fs(filePath h \<mapsto> doc), None)
       \<and> save J h fs True (WriteStops k) = (fs(filePath h \<mapsto> take k doc), Some WriteFailed)
       \<and> save J h fs True OpenFails = (fs, Some WriteFailed)
       \<and> save J h fs False outcome = (fs, Some MkdirFailed)
       \<and> (\<forall>p. p \<noteq> filePath h \<longrightarrow> fst (save J h fs mkdir_ok outcome) p = fs p)"
  using assms
  by (auto simp: SaveKey_def save_def os_WriteFile_def Let_def split: write_outcome.splits)

lemma demo_key_path: "key_path demo_manager ''main'' = ''.keystore/main.json''"
  by (simp add: key_path_def demo_manager_def filepath_Join_def)

text \<open>A completed \<^verbatim>\<open>SaveKey\<close> and a \<^verbatim>\<open>save\<close> that stops after one byte.\<close>

theorem writes_go_straight_to_the_file_witness:
  "SaveKey demo_json demo_manager demo_files WriteCompletes (demo_record demo_sealed demo_mac) ''main''
     = (demo_files(''.keystore/main.json'' \<mapsto>
          ''{'' @ Address (demo_record demo_sealed demo_mac) @ ''}''), None)
   \<and> save demo_json demo_history_store demo_files True (WriteStops 1)
     = (demo_files(''history.json'' \<mapsto> ''{''), Some WriteFailed)"
proof -
  have k: "MarshalIndent_key demo_json (demo_record demo_sealed demo_mac)
             = Some (''{'' @ Address (demo_record demo_sealed demo_mac) @ ''}'')"
    by (simp add: demo_json_def)
  have r: "MarshalIndent_records demo_json (records demo_history_store) = Some ''{}''"
    by (simp add: demo_json_def demo_history_store_def)
  from writes_go_straight_to_the_file [OF k r, where m = demo_manager and fs = demo_files
      and k = 1 and name = "''main''"]
  show ?thesis
    by (simp add: demo_key_path) (simp add: demo_history_store_def)
qed

text \<open>
  A write that is interrupted leaves a partial file where a subsequent load looks
  for the record: the keystore holds a readable record under the name; a \<^verbatim>\<open>SaveKey\<close>
  over it stops after three bytes; the file then holds those three bytes and
  \<^verbatim>\<open>LoadKey\<close> cannot parse it.
\<close>

theorem SaveKey_interrupted_counterexample:
  "LoadKey demo_json demo_manager demo_files ''main''
     = Inr ((demo_record [] [])\<lparr> Address := ''0xabcdef'' \<rparr>)
   \<and> fst (SaveKey demo_json demo_manager demo_files (WriteStops 3)
            (demo_record demo_sealed demo_mac) ''main'') ''.keystore/main.json''
       = Some ''{0x''
   \<and> LoadKey demo_json demo_manager
        (fst (SaveKey demo_json demo_manager demo_files (WriteStops 3)
               (demo_record demo_sealed demo_mac) ''main'')) ''main''
       = Inl UnmarshalFailed"
proof -
  have a: "Address (demo_record demo_sealed demo_mac) = ''0x'' @ fmt_x [word_of_nat demo_key]"
    by (simp add: demo_record_def)
  have s: "SaveKey demo_json demo_manager demo_files (WriteStops 3)
             (demo_record demo_sealed demo_mac) ''main''
           = (demo_files(''.keystore/main.json'' \<mapsto> ''{0x''), Some WriteFailed)"
    by (simp add: SaveKey_def demo_key_path demo_json_def os_WriteFile_def a)
  have l: "LoadKey demo_json demo_manager demo_files ''main''
     = Inr ((demo_record [] [])\<lparr> Address := ''0xabcdef'' \<rparr>)"
    by (simp add: LoadKey_def demo_key_path demo_files_def demo_json_def braced_def)
  have l': "LoadKey demo_json demo_manager (demo_files(''.keystore/main.json'' \<mapsto> ''{0x'')) ''main''
     = Inl UnmarshalFailed"
    by (simp add: LoadKey_def demo_key_path demo_json_def braced_def)
  from s l l' show ?thesis by simp
qed

lemma save_filePath:
  "save J h fs mkdir_ok outcome = (fs', err) \<Longrightarrow>
     (err = None \<longrightarrow> (\<exists>doc. MarshalIndent_records J (records h) = Some doc
                          \<and> fs' (filePath h) = Some doc))"
  by (auto simp: save_def os_WriteFile_def split: option.splits if_splits write_outcome.splits)

lemma save_errors:
  "save J h fs mkdir_ok outcome = (fs', err) \<Longrightarrow>
     err = None \<or> err = Some MarshalFailed \<or> err = Some MkdirFailed \<or> err = Some WriteFailed"
  by (auto simp: save_def os_WriteFile_def split: option.splits if_splits write_outcome.splits)

text \<open>
  Claim C8, as the code has it. When \<^verbatim>\<open>AddTransaction\<close> returns no error, the record
  is in the map and the history file holds the marshalled map. When marshalling, the
  directory or the write fails, that error is returned, and the record is in the map
  all the same: it was stored before \<^verbatim>\<open>save\<close> ran and is not taken out again. When
  the client fails (or the transaction has no recipient) nothing has changed.
\<close>

theorem AddTransaction_persists_without_rollback:
  assumes "AddTransaction J h fs mkdir_ok outcome hash tx_answer receipt_answer now = (h', fs', err)"
  shows "(err = None \<longrightarrow>
            (\<exists>record doc. records h' = (records h)(hash \<mapsto> record)
               \<and> MarshalIndent_records J (records h') = Some doc
               \<and> fs' (filePath h') = Some doc))
       \<and> (err = Some MarshalFailed \<or> err = Some MkdirFailed \<or> err = Some WriteFailed \<longrightarrow>
            (\<exists>record. records h' = (records h)(hash \<mapsto> record)
               \<and> GetTransaction h' hash = Inr record))
       \<and> (err = Some GetTransactionFailed \<or> err = Some GetReceiptFailed \<or> err = Some Panic \<longrightarrow>
            h' = h \<and> fs' = fs)"
proof (cases tx_answer)
  case (Inl e)
  with assms show ?thesis by (auto simp: AddTransaction_def)
next
  case (Inr p)
  obtain tx isPending where p: "p = (tx, isPending)" by (cases p)
  show ?thesis
  proof (cases "if isPending then Inr None else map_sum id Some receipt_answer")
    case (Inl e)
    with assms Inr p show ?thesis by (auto simp: AddTransaction_def)
  next
    case rc: (Inr receipt)
    show ?thesis
    proof (cases "etx_To tx")
      case None
      with assms Inr p rc show ?thesis by (auto simp: AddTransaction_def)
    next
      case (Some recipient)
      from assms Inr p rc Some obtain r where
        h': "h' = h\<lparr> records := (records h)(hash \<mapsto> r) \<rparr>"
        and sv: "save J h' fs mkdir_ok outcome = (fs', err)"
        by (auto simp: AddTransaction_def Let_def split: prod.splits)
      from save_filePath [OF sv] save_errors [OF sv] h' show ?thesis
        by (auto simp: GetTransaction_def)
    qed
  qed
qed

text \<open>A pending transaction added to the empty demo history, the write completing.\<close>

theorem AddTransaction_persists_without_rollback_witness:
  "snd (snd (AddTransaction demo_json demo_history_store demo_files True WriteCompletes demo_hash
               (Inr (demo_ethtx, True)) (Inl []) 50)) = None
   \<and> fst (snd (AddTransaction demo_json demo_history_store demo_files True WriteCompletes
               demo_hash (Inr (demo_ethtx, True)) (Inl []) 50)) ''history.json''
       = Some ''{pending}''"
proof -
  obtain h' fs' err where r: "AddTransaction demo_json demo_history_store demo_files True
      WriteCompletes demo_hash (Inr (demo_ethtx, True)) (Inl []) 50 = (h', fs', err)"
    by (rule prod_cases3)
  then have e: "err = None" and f: "filePath h' = ''history.json''"
    and s: "map_option tr_Status (records h' demo_hash) = Some ''pending''"
    by (auto simp: AddTransaction_def Let_def save_def os_WriteFile_def demo_json_def
        demo_ethtx_def demo_history_store_def split: prod.splits)
  from AddTransaction_persists_without_rollback [OF r] e f obtain doc where
    d: "MarshalIndent_records demo_json (records h') = Some doc"
    and w: "fs' ''history.json'' = Some doc" by auto
  from d s have "doc = ''{pending}''" by (auto simp: demo_json_def)
  with r e w show ?thesis by simp
qed

text \<open>
  A failed persist does not leave the store as it was: the history file cannot be
  opened, \<^verbatim>\<open>AddTransaction\<close> returns the write error, and the record, absent before,
  is returned by \<^verbatim>\<open>GetTransaction\<close> afterwards.
\<close>

theorem AddTransaction_failed_save_counterexample:
  "snd (snd (AddTransaction demo_json demo_history_store demo_files True OpenFails demo_hash
               (Inr (demo_ethtx, True)) (Inl []) 50)) = Some WriteFailed
   \<and> GetTransaction demo_history_store demo_hash = Inl NotFound
   \<and> GetTransaction
        (fst (AddTransaction demo_json demo_history_store demo_files True OpenFails demo_hash
               (Inr (demo_ethtx, True)) (Inl []) 50)) demo_hash
       = Inr \<lparr> tr_Hash = demo_hash, tr_From = ''0x01'', tr_To = ''0x02'', tr_Value = ''5'',
               tr_GasUsed = 0, tr_GasPrice = ''7'', tr_BlockNumber = 0,
               tr_Status = ''pending'', tr_Timestamp = 50, tr_Data = ''0x'', tr_Error = [] \<rparr>"
  by (simp add: AddTransaction_def Let_def save_def os_WriteFile_def demo_json_def
      demo_ethtx_def demo_history_store_def GetTransaction_def fmt_int_def fmt_d.simps
      decimal_digit_def)

end
